theory Spec2Isabelle
  imports Complex_Main
begin

section \<open>Python values handled by the generic property utilities\<close>

text \<open>
  The module \<^verbatim>\<open>idaes/generic_models/properties/core/generic/utility.py\<close> is glue
  code over dynamically typed configuration values.  The values it inspects are
  embedded as one datatype.  Objects that carry attributes (functions, classes, class
  instances and modules) are one constructor, tagged with their kind; the name stands
  for the identity of the object and the association list holds every attribute that
  \<^verbatim>\<open>getattr\<close> finds on it (for an instance this includes the methods of its class).
  Numbers are never computed with by this module, so a single numeric constructor
  suffices.  Dictionaries are keyed by strings, as the configuration dictionaries
  \<^verbatim>\<open>parameter_data\<close> and \<^verbatim>\<open>state_bounds\<close> are.
\<close>

datatype kind =
    Function
  | Class
  | Instance bool \<comment> \<open>whether the instance's class defines \<^verbatim>\<open>__call__\<close>\<close>
  | Module

datatype pyval =
    PyNone
  | PyNum real
  | PyStr string
  | PyUnit string \<comment> \<open>a unit expression of the units container\<close>
  | PyTuple "pyval list"
  | PyList "pyval list"
  | PyDict "(string \<times> pyval) list"
  | PyObject kind string "(string \<times> pyval) list"

text \<open>\<^verbatim>\<open>callable(x)\<close>: functions and classes are callable, an instance is when its
  class defines \<^verbatim>\<open>__call__\<close>; modules and the builtin data values are not.\<close>

fun callable :: "pyval \<Rightarrow> bool" where
  "callable (PyObject Function _ _) = True"
| "callable (PyObject Class _ _) = True"
| "callable (PyObject (Instance c) _ _) = c"
| "callable (PyObject Module _ _) = False"
| "callable _ = False"

text \<open>\<^verbatim>\<open>isinstance(x, types.ModuleType)\<close> and \<^verbatim>\<open>isinstance(x, tuple)\<close>.\<close>

fun isinstance_ModuleType :: "pyval \<Rightarrow> bool" where
  "isinstance_ModuleType (PyObject Module _ _) = True"
| "isinstance_ModuleType _ = False"

fun isinstance_tuple :: "pyval \<Rightarrow> bool" where
  "isinstance_tuple (PyTuple _) = True"
| "isinstance_tuple _ = False"

section \<open>Blocks, configuration objects and errors\<close>

text \<open>
  A configuration object is a namespace looked up by attribute name.  Every object of
  the host framework that this module reads exposes \<^verbatim>\<open>.config\<close>; the parameter block
  \<^verbatim>\<open>.params\<close> offers \<^verbatim>\<open>get_component\<close> in addition, and a block has a name, its
  parameter block, and the constructed parameter objects reachable by \<^verbatim>\<open>getattr\<close>.
  The block's own attributes \<^verbatim>\<open>name\<close>, \<^verbatim>\<open>config\<close> and \<^verbatim>\<open>params\<close> are reachable by
  \<^verbatim>\<open>getattr\<close> as well.  Its configuration and parameter block are objects of the host
  framework and no parameter objects: what an assignment to their attribute
  \<^verbatim>\<open>.value\<close> does is the host's to decide.  The block carries the host's answer as
  \<open>own_setattr\<close>, which for the attribute name of the object and the value assigned
  gives the message of the error the host raises, or \<open>None\<close> when it accepts; an
  accepted value is kept in \<open>own_values\<close>.  No function of this module reads it.
\<close>

type_synonym config_block = "string \<rightharpoonup> pyval"

record configured =
  config :: config_block

text \<open>Modelled from the spec: \<^verbatim>\<open>get_component\<close> is the registry lookup of the parameter
  block, which lives outside this module.  It returns the component registered under
  the name, or raises the registry's own not-found error (\<open>Inl\<close> with its message).\<close>

record params_block = configured +
  get_component :: "string \<Rightarrow> string + configured"

record param_obj =
  param_value :: pyval \<comment> \<open>the attribute \<^verbatim>\<open>.value\<close> of a parameter object\<close>

record block = configured +
  name :: string
  params :: params_block
  attrs :: "string \<rightharpoonup> param_obj"
  own_setattr :: "string \<Rightarrow> pyval \<Rightarrow> string option"
  own_values :: "string \<rightharpoonup> pyval"

text \<open>
  The message of an exception is either text that this module formats itself, or the
  interpreter's own wording for a failed lookup of the given name.
\<close>

datatype message =
    Text string
  | Lookup string

datatype error =
    AttributeError message
  | KeyError pyval \<comment> \<open>carries the missing key\<close>
  | TypeError
  | IndexError
  | ConfigurationError string
  | GenericPropertyPackageError block string \<comment> \<open>fields \<^verbatim>\<open>block\<close> and \<^verbatim>\<open>prop\<close>\<close>
  | External string \<comment> \<open>raised by a collaborator: the registry or the unit conversion\<close>

text \<open>\<^verbatim>\<open>GenericPropertyPackageError.__str__\<close>; a block prints as its name.\<close>

definition GenericPropertyPackageError_str :: "block \<Rightarrow> string \<Rightarrow> string" where
  "GenericPropertyPackageError_str blk prop =
     ''Generic Property Package instance '' @ name blk @ '' called for '' @ prop @
     '', but was not provided with a method for this property. Please add a method '' @
     ''for this property in the property parameter configuration.''"

text \<open>Sequencing of steps that may raise: the first error ends the computation.\<close>

definition and_then :: "error + 'a \<Rightarrow> ('a \<Rightarrow> error + 'b) \<Rightarrow> error + 'b" where
  "and_then r f = (case r of Inl e \<Rightarrow> Inl e | Inr x \<Rightarrow> f x)"

text \<open>\<^verbatim>\<open>getattr(x, n)\<close> on a value.  The builtin data values are only ever asked for
  \<^verbatim>\<open>return_expression\<close>, which none of them has.\<close>

fun getattr :: "pyval \<Rightarrow> string \<Rightarrow> error + pyval" where
  "getattr (PyObject k nm as) n =
     (case map_of as n of None \<Rightarrow> Inl (AttributeError (Lookup n)) | Some v \<Rightarrow> Inr v)"
| "getattr _ n = Inl (AttributeError (Lookup n))"

text \<open>\<^verbatim>\<open>x[k]\<close> for a string key \<open>k\<close>: a dictionary looks the key up, every other value
  of the model refuses a string subscript.\<close>

fun getitem_str :: "pyval \<Rightarrow> string \<Rightarrow> error + pyval" where
  "getitem_str (PyDict d) k =
     (case map_of d k of None \<Rightarrow> Inl (KeyError (PyStr k)) | Some v \<Rightarrow> Inr v)"
| "getitem_str _ k = Inl TypeError"

text \<open>\<^verbatim>\<open>x[i]\<close> for one of the literal indices 0 to 3 used by the module.  A dictionary
  keyed by strings has no integer key.\<close>

fun getitem_int :: "pyval \<Rightarrow> nat \<Rightarrow> error + pyval" where
  "getitem_int (PyTuple xs) i = (if i < length xs then Inr (xs ! i) else Inl IndexError)"
| "getitem_int (PyList xs) i = (if i < length xs then Inr (xs ! i) else Inl IndexError)"
| "getitem_int (PyStr s) i = (if i < length s then Inr (PyStr [s ! i]) else Inl IndexError)"
| "getitem_int (PyDict d) i = Inl (KeyError (PyNum (real i)))"
| "getitem_int _ i = Inl TypeError"

text \<open>\<^verbatim>\<open>len(x)\<close>.\<close>

fun len :: "pyval \<Rightarrow> error + nat" where
  "len (PyTuple xs) = Inr (length xs)"
| "len (PyList xs) = Inr (length xs)"
| "len (PyStr s) = Inr (length s)"
| "len (PyDict d) = Inr (length (remdups (map fst d)))"
| "len _ = Inl TypeError"

section \<open>The method resolver\<close>

definition invalid_option_msg :: "string \<Rightarrow> string \<Rightarrow> string" where
  "invalid_option_msg nm config_arg =
     nm @ '' Generic Property Package called for invalid configuration option '' @
     config_arg @ ''. Please contact the developer of the property package.''"

definition invalid_value_msg :: "string \<Rightarrow> string \<Rightarrow> string" where
  "invalid_value_msg nm config_arg =
     nm @ '' Generic Property Package received invalid value for argument '' @
     config_arg @ ''. Value must be a method, a class with a method named expression '' @
     ''or a module containing one of the previous.''"

text \<open>The local variable \<^verbatim>\<open>source_block\<close> of \<^verbatim>\<open>get_method\<close>: the configuration of the
  parameter block, or of the named component.  The argument \<^verbatim>\<open>comp\<close> is written \<open>comp'\<close>,
  since \<open>comp\<close> is function composition in HOL.\<close>

definition source_block :: "block \<Rightarrow> string option \<Rightarrow> error + config_block" where
  "source_block self comp' =
     (case comp' of
        None \<Rightarrow> Inr (config (params self))
      | Some c \<Rightarrow>
          (case get_component (params self) c of
             Inl m \<Rightarrow> Inl (External m)
           | Inr co \<Rightarrow> Inr (config co)))"

definition get_method :: "block \<Rightarrow> string \<Rightarrow> string option \<Rightarrow> error + pyval" where
  "get_method self config_arg comp' =
     and_then (source_block self comp') (\<lambda>sb.
       case sb config_arg of
         None \<Rightarrow> Inl (AttributeError (Text (invalid_option_msg (name self) config_arg)))
       | Some c_arg \<Rightarrow>
           if c_arg = PyNone then Inl (GenericPropertyPackageError self config_arg)
           else
             and_then
               (if isinstance_ModuleType c_arg then getattr c_arg config_arg else Inr c_arg)
               (\<lambda>c_arg.
                  let mthd = (case getattr c_arg ''return_expression'' of
                                Inl e \<Rightarrow> c_arg
                              | Inr m \<Rightarrow> m)
                  in if callable mthd then Inr mthd
                     else Inl (ConfigurationError (invalid_value_msg (name self) config_arg))))"

text \<open>\<^verbatim>\<open>get_component_object\<close> hands the registry's answer, or its error, through.\<close>

definition get_component_object :: "block \<Rightarrow> string \<Rightarrow> error + configured" where
  "get_component_object self comp' =
     (case get_component (params self) comp' of Inl m \<Rightarrow> Inl (External m) | Inr co \<Rightarrow> Inr co)"

section \<open>Bounds and default of a state variable\<close>

text \<open>
  \<^verbatim>\<open>pyunits.convert_value(value, from_units, to_units)\<close> belongs to the units
  container outside this module; the functions below take it as their first argument.
  It may raise.
\<close>

type_synonym convert = "pyval \<Rightarrow> pyval \<Rightarrow> pyval \<Rightarrow> error + pyval"

text \<open>The handler \<^verbatim>\<open>except (KeyError, TypeError)\<close>.\<close>

fun is_KeyError_or_TypeError :: "error \<Rightarrow> bool" where
  "is_KeyError_or_TypeError (KeyError _) = True"
| "is_KeyError_or_TypeError TypeError = True"
| "is_KeyError_or_TypeError _ = False"

definition get_bounds_from_config ::
  "convert \<Rightarrow> block \<Rightarrow> string \<Rightarrow> pyval \<Rightarrow> error + ((pyval \<times> pyval) \<times> pyval)" where
  "get_bounds_from_config convert_value b state base_units =
     (case config (params b) ''state_bounds'' of
        None \<Rightarrow> Inl (AttributeError (Lookup ''state_bounds''))
      | Some state_bounds \<Rightarrow>
          (case getitem_str state_bounds state of
             Inl e \<Rightarrow>
               if is_KeyError_or_TypeError e then Inr ((PyNone, PyNone), PyNone) else Inl e
           | Inr var_config \<Rightarrow>
               and_then (len var_config) (\<lambda>n.
                 if n = 4 then
                   and_then (getitem_int var_config 0) (\<lambda>v0.
                   and_then (getitem_int var_config 3) (\<lambda>u.
                   and_then (convert_value v0 u base_units) (\<lambda>lower.
                   and_then (getitem_int var_config 2) (\<lambda>v2.
                   and_then (getitem_int var_config 3) (\<lambda>u.
                   and_then (convert_value v2 u base_units) (\<lambda>upper.
                   and_then (getitem_int var_config 1) (\<lambda>v1.
                   and_then (getitem_int var_config 3) (\<lambda>u.
                   and_then (convert_value v1 u base_units) (\<lambda>default_val.
                   Inr ((lower, upper), default_val))))))))))
                 else
                   and_then (getitem_int var_config 0) (\<lambda>v0.
                   and_then (getitem_int var_config 2) (\<lambda>v2.
                   and_then (getitem_int var_config 1) (\<lambda>v1.
                   Inr ((v0, v2), v1)))))))"

section \<open>The parameter setter\<close>

text \<open>
  \<^verbatim>\<open>getattr(b, n)\<close> on a block finds the block's own attributes and the constructed
  parameter objects.  An own attribute is returned by its name, which tells the three
  objects apart.
\<close>

datatype attribute =
    Parameter param_obj
  | Own string

definition own_attributes :: "string list" where
  "own_attributes = [''name'', ''config'', ''params'']"

definition getattr_block :: "block \<Rightarrow> string \<Rightarrow> error + attribute" where
  "getattr_block b n =
     (if n \<in> set own_attributes then Inr (Own n)
      else case attrs b n of
             None \<Rightarrow> Inl (AttributeError (Lookup n))
           | Some obj \<Rightarrow> Inr (Parameter obj))"

text \<open>The attribute \<^verbatim>\<open>parameter_data\<close> of a configuration object.\<close>

definition parameter_data :: "config_block \<Rightarrow> error + pyval" where
  "parameter_data cfg =
     (case cfg ''parameter_data'' of
        None \<Rightarrow> Inl (AttributeError (Lookup ''parameter_data''))
      | Some pd \<Rightarrow> Inr pd)"

text \<open>The assignment \<^verbatim>\<open>param_obj.value = v\<close> on a parameter object, where \<open>param_obj\<close> is
  the object that the block holds under the attribute name \<open>target\<close>.\<close>

definition set_value :: "block \<Rightarrow> string \<Rightarrow> param_obj \<Rightarrow> pyval \<Rightarrow> block" where
  "set_value b target param_obj v =
     b\<lparr>attrs := (attrs b)(target \<mapsto> param_obj\<lparr>param_value := v\<rparr>)\<rparr>"

text \<open>
  The assignment \<^verbatim>\<open>param_obj.value = v\<close> on whatever \<^verbatim>\<open>getattr\<close> returned.  The name of
  a block is a string, on which the interpreter refuses every attribute assignment; on
  the configuration and the parameter block the host decides.
\<close>

definition setattr_value :: "block \<Rightarrow> string \<Rightarrow> attribute \<Rightarrow> pyval \<Rightarrow> error + block" where
  "setattr_value b target param_obj v =
     (case param_obj of
        Parameter obj \<Rightarrow> Inr (set_value b target obj v)
      | Own n \<Rightarrow>
          if n = ''name'' then Inl (AttributeError (Lookup ''value''))
          else (case own_setattr b n v of
                  Some m \<Rightarrow> Inl (External m)
                | None \<Rightarrow> Inr (b\<lparr>own_values := (own_values b)(n \<mapsto> v)\<rparr>)))"

definition no_units_msg :: "string \<Rightarrow> string \<Rightarrow> string" where
  "no_units_msg nm param =
     nm @ '' no units provided for parameter '' @ param @ '' - assuming default units''"

text \<open>An outcome together with the debug messages handed to the logger before it.\<close>

definition logged ::
  "string list \<Rightarrow> error + 'a \<Rightarrow> (error \<times> string list) + ('a \<times> string list)" where
  "logged msgs r = (case r of Inl e \<Rightarrow> Inl (e, msgs) | Inr x \<Rightarrow> Inr (x, msgs))"

text \<open>
  \<^verbatim>\<open>set_param_value\<close> mutates the block and may write to the module's logger: the
  model returns the block after the call, or the error raised, in both cases together
  with the debug messages the call handed to the logger.  The optional arguments
  \<^verbatim>\<open>config\<close> and \<^verbatim>\<open>index\<close> are options (\<open>None\<close> is Python's \<^verbatim>\<open>None\<close>); \<^verbatim>\<open>index\<close> is a
  string, as the concatenation \<^verbatim>\<open>param+"_"+index\<close> requires.
\<close>

definition set_param_value ::
  "convert \<Rightarrow> block \<Rightarrow> string \<Rightarrow> pyval \<Rightarrow> config_block option \<Rightarrow> string option
     \<Rightarrow> (error \<times> string list) + (block \<times> string list)" where
  "set_param_value convert_value b param units config' index =
     (let cfg = (case config' of None \<Rightarrow> config b | Some c \<Rightarrow> c) in
      case
        (case index of
           None \<Rightarrow>
             and_then (getattr_block b param) (\<lambda>param_obj.
             and_then (parameter_data cfg) (\<lambda>pd.
             and_then (getitem_str pd param) (\<lambda>p_data.
             Inr (param, param_obj, p_data))))
         | Some i \<Rightarrow>
             and_then (getattr_block b (param @ ''_'' @ i)) (\<lambda>param_obj.
             and_then (parameter_data cfg) (\<lambda>pd.
             and_then (getitem_str pd param) (\<lambda>d.
             and_then (getitem_str d i) (\<lambda>p_data.
             Inr (param @ ''_'' @ i, param_obj, p_data))))))
      of
        Inl e \<Rightarrow> Inl (e, [])
      | Inr (target, param_obj, p_data) \<Rightarrow>
          if isinstance_tuple p_data then
            logged []
              (and_then
                 (if units = PyNone
                  then and_then (getitem_int p_data 1) (\<lambda>u. Inr (u = PyNone))
                  else Inr False)
                 (\<lambda>both_unset.
                    if both_unset then
                      and_then (getitem_int p_data 0) (\<lambda>v.
                      setattr_value b target param_obj v)
                    else
                      and_then (getitem_int p_data 0) (\<lambda>v.
                      and_then (getitem_int p_data 1) (\<lambda>u.
                      and_then (convert_value v u units) (\<lambda>v'.
                      setattr_value b target param_obj v')))))
          else
            logged [no_units_msg (name b) param] (setattr_value b target param_obj p_data))"

section \<open>Classification of the resolver's errors\<close>

text \<open>
  \<^verbatim>\<open>get_method\<close> has three \<^verbatim>\<open>raise\<close> statements of its own: the \<^verbatim>\<open>AttributeError\<close>
  with the invalid-option text, \<^verbatim>\<open>GenericPropertyPackageError\<close> and
  \<^verbatim>\<open>ConfigurationError\<close>.  An error is documented when it is one of these.
\<close>

fun documented :: "error \<Rightarrow> bool" where
  "documented (AttributeError (Text _)) = True"
| "documented (GenericPropertyPackageError _ _) = True"
| "documented (ConfigurationError _) = True"
| "documented _ = False"

section \<open>The setter's target, raw data and stored value\<close>

text \<open>
  Four notions read off \<^verbatim>\<open>set_param_value\<close>, in which its properties are stated; the
  lemma \<open>set_param_value_alt\<close> below shows that the function is their composition,
  followed by the assignment.  \<open>target_name\<close> is the attribute name passed to
  \<^verbatim>\<open>getattr\<close>, \<open>used_config\<close> the configuration object read, \<open>raw_data\<close> the value bound
  to \<^verbatim>\<open>p_data\<close>, and \<open>resolved\<close> the value handed to the assignment together with the
  messages logged before it.
\<close>

definition target_name :: "string \<Rightarrow> string option \<Rightarrow> string" where
  "target_name param index = (case index of None \<Rightarrow> param | Some i \<Rightarrow> param @ ''_'' @ i)"

definition used_config :: "block \<Rightarrow> config_block option \<Rightarrow> config_block" where
  "used_config b config' = (case config' of None \<Rightarrow> config b | Some c \<Rightarrow> c)"

definition raw_data :: "config_block \<Rightarrow> string \<Rightarrow> string option \<Rightarrow> error + pyval" where
  "raw_data cfg param index =
     and_then (parameter_data cfg) (\<lambda>pd.
       case index of
         None \<Rightarrow> getitem_str pd param
       | Some i \<Rightarrow> and_then (getitem_str pd param) (\<lambda>d. getitem_str d i))"

definition resolved ::
  "convert \<Rightarrow> pyval \<Rightarrow> string \<Rightarrow> pyval \<Rightarrow> error + (pyval \<times> string list)" where
  "resolved convert_value units msg p_data =
     (case p_data of
        PyTuple xs \<Rightarrow>
          (case xs of
             v # u # _ \<Rightarrow>
               if units = PyNone \<and> u = PyNone then Inr (v, [])
               else and_then (convert_value v u units) (\<lambda>v'. Inr (v', []))
           | _ \<Rightarrow> Inl IndexError)
      | _ \<Rightarrow> Inr (p_data, [msg]))"

section \<open>Example configurations\<close>

text \<open>A block named \<open>props\<close> whose parameter block has the given configuration and no
  registered component; it holds no parameter objects, and its host accepts every
  assignment.\<close>

definition ex_params :: "config_block \<Rightarrow> params_block" where
  "ex_params cfg = \<lparr>config = cfg, get_component = (\<lambda>c. Inl ''no such component'')\<rparr>"

definition ex_block :: "config_block \<Rightarrow> block" where
  "ex_block cfg =
     \<lparr>config = Map.empty, name = ''props'', params = ex_params cfg, attrs = Map.empty,
      own_setattr = (\<lambda>n v. None), own_values = Map.empty\<rparr>"

text \<open>A function, a class whose method \<^verbatim>\<open>return_expression\<close> is that function, an object
  whose attribute \<^verbatim>\<open>return_expression\<close> is a number, and a module that defines
  \<^verbatim>\<open>return_expression\<close> at its top level and nothing else.\<close>

definition ex_method :: pyval where
  "ex_method = PyObject Function ''return_expression'' []"

definition ex_class :: pyval where
  "ex_class = PyObject Class ''Perrys'' [(''return_expression'', ex_method)]"

definition ex_object :: pyval where
  "ex_object = PyObject (Instance False) ''holder'' [(''return_expression'', PyNum 5)]"

definition ex_module :: pyval where
  "ex_module = PyObject Module ''perrys'' [(''return_expression'', ex_method)]"

text \<open>Modelled from the spec: a unit-conversion facility that knows the factor \<open>f\<close> from
  \<open>unit_a\<close> to \<open>unit_b\<close> and converts numbers by multiplying with it.  The units
  container itself is outside this module.\<close>

definition factor_conversion :: "pyval \<Rightarrow> pyval \<Rightarrow> real \<Rightarrow> convert" where
  "factor_conversion unit_a unit_b f v from_units to_units =
     (case v of
        PyNum x \<Rightarrow>
          if from_units = unit_a \<and> to_units = unit_b then Inr (PyNum (x * f))
          else Inl (External ''no conversion known'')
      | _ \<Rightarrow> Inl (External ''not a number''))"

definition kPa_to_Pa :: convert where
  "kPa_to_Pa = factor_conversion (PyUnit ''kPa'') (PyUnit ''Pa'') 1000"

text \<open>A conversion facility that refuses every request.\<close>

definition never_converts :: convert where
  "never_converts v from_units to_units = Inl (External ''conversion refused'')"

text \<open>State bounds for the pressure, given in kPa.\<close>

definition ex_bounds :: config_block where
  "ex_bounds = [''state_bounds'' \<mapsto>
      PyDict [(''pressure'', PyTuple [PyNum 1, PyNum 5, PyNum 10, PyUnit ''kPa''])]]"

text \<open>A block named \<open>props\<close> with the given parameter data in its own configuration; it
  holds fresh parameter objects \<^verbatim>\<open>kappa\<close>, \<^verbatim>\<open>kappa_1\<close> and \<^verbatim>\<open>kappa_2\<close>.\<close>

definition ex_param_block :: "pyval \<Rightarrow> block" where
  "ex_param_block pd =
     \<lparr>config = [''parameter_data'' \<mapsto> pd], name = ''props'', params = ex_params Map.empty,
      attrs = [''kappa'' \<mapsto> \<lparr>param_value = PyNone\<rparr>,
               ''kappa_1'' \<mapsto> \<lparr>param_value = PyNone\<rparr>,
               ''kappa_2'' \<mapsto> \<lparr>param_value = PyNone\<rparr>],
      own_setattr = (\<lambda>n v. None), own_values = Map.empty\<rparr>"

text \<open>The same block with parameter data for \<^verbatim>\<open>kappa\<close> under the indices \<open>1\<close> (a bare
  value) and \<open>2\<close> (a pair with its unit).\<close>

definition ex_kappa :: block where
  "ex_kappa = ex_param_block
     (PyDict [(''kappa'', PyDict [(''1'', PyNum 2), (''2'', PyTuple [PyNum 3, PyUnit ''kPa''])])])"

section \<open>Properties of the method resolver\<close>

lemma getattr_error: "getattr v n = Inl e \<Longrightarrow> e = AttributeError (Lookup n)"
  by (cases v) (auto split: option.splits)

lemma callable_not_None_nor_module:
  "callable v \<Longrightarrow> v \<noteq> PyNone \<and> \<not> isinstance_ModuleType v"
  by (cases v rule: callable.cases) simp_all

text \<open>
  Claim C1, as the code has it: when the configuration exposes under key \<open>K\<close> a
  callable value that has no attribute \<^verbatim>\<open>return_expression\<close>, \<^verbatim>\<open>get_method\<close> returns
  that very value.
\<close>

theorem get_method_callable:
  assumes "source_block self comp' = Inr sb" and "sb K = Some v"
    and "callable v" and "getattr v ''return_expression'' = Inl e"
  shows "get_method self K comp' = Inr v"
proof -
  from \<open>callable v\<close> have "v \<noteq> PyNone" and "\<not> isinstance_ModuleType v"
    by (simp_all add: callable_not_None_nor_module)
  with assms show ?thesis
    by (simp add: get_method_def and_then_def)
qed

theorem get_method_callable_witness:
  "get_method (ex_block [''enth_mol'' \<mapsto> ex_method]) ''enth_mol'' None = Inr ex_method"
  by (rule get_method_callable [where sb = "[''enth_mol'' \<mapsto> ex_method]"])
     (simp_all add: source_block_def ex_block_def ex_params_def ex_method_def)

text \<open>
  Claim C1 as stated fails for a callable that has the attribute: a class is callable,
  and for a class with a method \<^verbatim>\<open>return_expression\<close> the resolver returns the method,
  not the class.
\<close>

theorem get_method_callable_counterexample:
  "callable ex_class \<and>
   config (params (ex_block [''dens_mol_liq_comp'' \<mapsto> ex_class])) ''dens_mol_liq_comp''
     = Some ex_class \<and>
   get_method (ex_block [''dens_mol_liq_comp'' \<mapsto> ex_class]) ''dens_mol_liq_comp'' None
     = Inr ex_method \<and>
   ex_method \<noteq> ex_class"
  by (simp add: get_method_def source_block_def and_then_def ex_block_def ex_params_def
      ex_class_def ex_method_def)

text \<open>
  Claim C2, as the code has it: when the value under key \<open>K\<close> is not a module and
  exposes an attribute \<^verbatim>\<open>return_expression\<close> that is callable, \<^verbatim>\<open>get_method\<close> returns
  that attribute, not the object that wraps it.
\<close>

theorem get_method_return_expression:
  assumes "source_block self comp' = Inr sb" and "sb K = Some v"
    and "\<not> isinstance_ModuleType v"
    and "getattr v ''return_expression'' = Inr m" and "callable m"
  shows "get_method self K comp' = Inr m"
proof -
  from assms(4) have "v \<noteq> PyNone" by auto
  with assms show ?thesis
    by (simp add: get_method_def and_then_def)
qed

theorem get_method_return_expression_witness:
  "get_method (ex_block [''dens_mol_liq_comp'' \<mapsto> ex_class]) ''dens_mol_liq_comp'' None
     = Inr ex_method"
  by (rule get_method_return_expression
        [where sb = "[''dens_mol_liq_comp'' \<mapsto> ex_class]" and v = ex_class])
     (simp_all add: source_block_def ex_block_def ex_params_def ex_class_def ex_method_def)

text \<open>
  Claim C2 as stated fails in two ways.  An attribute \<^verbatim>\<open>return_expression\<close> that is not
  callable is refused with \<^verbatim>\<open>ConfigurationError\<close>.  A module is first replaced by its
  attribute named \<open>K\<close>, so its own \<^verbatim>\<open>return_expression\<close> is never returned: here the
  lookup of \<open>K\<close> in the module fails.
\<close>

theorem get_method_return_expression_counterexample:
  "getattr ex_object ''return_expression'' = Inr (PyNum 5) \<and>
   get_method (ex_block [''enth_mol'' \<mapsto> ex_object]) ''enth_mol'' None
     = Inl (ConfigurationError (invalid_value_msg ''props'' ''enth_mol'')) \<and>
   getattr ex_module ''return_expression'' = Inr ex_method \<and>
   get_method (ex_block [''enth_mol'' \<mapsto> ex_module]) ''enth_mol'' None
     = Inl (AttributeError (Lookup ''enth_mol''))"
  by (simp add: get_method_def source_block_def and_then_def ex_block_def ex_params_def
      ex_object_def ex_module_def ex_method_def)

text \<open>
  Claim C3: \<^verbatim>\<open>get_method\<close> fails with \<^verbatim>\<open>GenericPropertyPackageError\<close> exactly when the
  value configured under key \<open>K\<close> is \<^verbatim>\<open>None\<close>, and the error then carries the owning
  block and the property name, both of which its message prints; it fails with the
  invalid-option \<^verbatim>\<open>AttributeError\<close> exactly when \<open>K\<close> is absent from the configuration
  namespace, and the message then names the block and \<open>K\<close>.  The two errors differ.
\<close>

theorem get_method_error_kinds:
  "((\<exists>blk prop. get_method self K comp' = Inl (GenericPropertyPackageError blk prop)) \<longleftrightarrow>
      (\<exists>sb. source_block self comp' = Inr sb \<and> sb K = Some PyNone)) \<and>
   ((\<exists>m. get_method self K comp' = Inl (AttributeError (Text m))) \<longleftrightarrow>
      (\<exists>sb. source_block self comp' = Inr sb \<and> sb K = None)) \<and>
   (\<forall>sb. source_block self comp' = Inr sb \<and> sb K = Some PyNone \<longrightarrow>
      get_method self K comp' = Inl (GenericPropertyPackageError self K)) \<and>
   (\<forall>sb. source_block self comp' = Inr sb \<and> sb K = None \<longrightarrow>
      get_method self K comp' =
        Inl (AttributeError (Text (invalid_option_msg (name self) K)))) \<and>
   (\<exists>pre mid post.
      GenericPropertyPackageError_str self K = pre @ name self @ mid @ K @ post)"
proof -
  have "GenericPropertyPackageError_str self K
          = ''Generic Property Package instance '' @ name self @ '' called for '' @ K @
            ('', but was not provided with a method for this property. Please add a method '' @
             ''for this property in the property parameter configuration.'')"
    by (simp add: GenericPropertyPackageError_str_def)
  then have "\<exists>pre mid post.
      GenericPropertyPackageError_str self K = pre @ name self @ mid @ K @ post"
    by blast
  then show ?thesis
    by (auto simp: get_method_def and_then_def Let_def source_block_def
        dest: getattr_error split: sum.splits option.splits if_splits)
qed

theorem get_method_error_kinds_witness:
  "get_method (ex_block [''enth_mol'' \<mapsto> PyNone]) ''enth_mol'' None
     = Inl (GenericPropertyPackageError (ex_block [''enth_mol'' \<mapsto> PyNone]) ''enth_mol'') \<and>
   get_method (ex_block [''enth_mol'' \<mapsto> PyNone]) ''entr_mol'' None
     = Inl (AttributeError (Text (invalid_option_msg ''props'' ''entr_mol'')))"
  using get_method_error_kinds [of "ex_block [''enth_mol'' \<mapsto> PyNone]" "''enth_mol''" None]
    get_method_error_kinds [of "ex_block [''enth_mol'' \<mapsto> PyNone]" "''entr_mol''" None]
  by (simp add: source_block_def ex_block_def ex_params_def)

text \<open>
  Claim C10: when the value configured under key \<open>K\<close> is a module that defines no
  attribute named \<open>K\<close>, the interpreter's own \<^verbatim>\<open>AttributeError\<close> for the failed lookup
  leaves \<^verbatim>\<open>get_method\<close> as it is, and it is none of the three documented errors.
\<close>

theorem get_method_module_without_attribute:
  assumes "source_block self comp' = Inr sb" and "sb K = Some (PyObject Module nm as)"
    and "map_of as K = None"
  shows "\<exists>e. get_method self K comp' = Inl e \<and> e = AttributeError (Lookup K) \<and>
           \<not> documented e"
  using assms by (simp add: get_method_def and_then_def)

theorem get_method_module_without_attribute_witness:
  "\<exists>e. get_method (ex_block [''enth_mol'' \<mapsto> ex_module]) ''enth_mol'' None = Inl e \<and>
       e = AttributeError (Lookup ''enth_mol'') \<and> \<not> documented e"
  unfolding ex_module_def
  by (rule get_method_module_without_attribute
        [where sb = "[''enth_mol'' \<mapsto> PyObject Module ''perrys''
                        [(''return_expression'', ex_method)]]"
           and nm = "''perrys''" and as = "[(''return_expression'', ex_method)]"])
     (simp_all add: source_block_def ex_block_def ex_params_def)

section \<open>Properties of the bounds extractor\<close>

text \<open>
  Claim C4: for a 4-element bound specification \<open>(lower, default, upper, unit)\<close> the
  extractor converts lower, default and upper from that unit into the base unit and
  returns the converted values as \<open>((lower, upper), default)\<close>.  In particular, when the
  conversion from the unit to the base unit multiplies by a factor \<open>f\<close>, the
  specification \<open>(1, 5, 10, unit)\<close> yields the bounds \<open>(1 * f, 10 * f)\<close> and the default
  \<open>5 * f\<close>.
\<close>

theorem get_bounds_from_config_converts:
  assumes "config (params b) ''state_bounds'' = Some state_bounds"
    and "getitem_str state_bounds state = Inr (PyTuple [lower, default_val, upper, u])"
  shows "(convert_value lower u base_units = Inr lower' \<and>
          convert_value upper u base_units = Inr upper' \<and>
          convert_value default_val u base_units = Inr default_val' \<longrightarrow>
            get_bounds_from_config convert_value b state base_units
              = Inr ((lower', upper'), default_val')) \<and>
         (lower = PyNum 1 \<and> default_val = PyNum 5 \<and> upper = PyNum 10 \<and>
          (\<forall>x. convert_value (PyNum x) u base_units = Inr (PyNum (x * f))) \<longrightarrow>
            get_bounds_from_config convert_value b state base_units
              = Inr ((PyNum (1 * f), PyNum (10 * f)), PyNum (5 * f)))"
  using assms by (simp add: get_bounds_from_config_def and_then_def)

theorem get_bounds_from_config_converts_witness:
  "get_bounds_from_config kPa_to_Pa (ex_block ex_bounds) ''pressure'' (PyUnit ''Pa'')
     = Inr ((PyNum 1000, PyNum 10000), PyNum 5000)"
  using get_bounds_from_config_converts
    [of "ex_block ex_bounds"
        "PyDict [(''pressure'', PyTuple [PyNum 1, PyNum 5, PyNum 10, PyUnit ''kPa''])]"
        "''pressure''" "PyNum 1" "PyNum 5" "PyNum 10" "PyUnit ''kPa''"
        kPa_to_Pa "PyUnit ''Pa''" "PyNum 1000" "PyNum 10000" "PyNum 5000" 1000]
  by (simp add: ex_block_def ex_params_def ex_bounds_def kPa_to_Pa_def factor_conversion_def)

text \<open>
  Claim C5: when the configuration's \<^verbatim>\<open>state_bounds\<close> holds no specification for the
  state variable, because it is a dictionary without that key or because it is not a
  dictionary at all and so cannot be subscripted with the name, the extractor returns
  \<open>((None, None), None)\<close> and raises nothing.
\<close>

theorem get_bounds_from_config_missing:
  assumes "config (params b) ''state_bounds'' = Some state_bounds"
    and "\<And>d. state_bounds = PyDict d \<Longrightarrow> map_of d state = None"
  shows "get_bounds_from_config convert_value b state base_units
           = Inr ((PyNone, PyNone), PyNone)"
  using assms
  by (cases state_bounds) (simp_all add: get_bounds_from_config_def)

theorem get_bounds_from_config_missing_witness:
  "get_bounds_from_config kPa_to_Pa (ex_block ex_bounds) ''temperature'' (PyUnit ''K'')
     = Inr ((PyNone, PyNone), PyNone) \<and>
   get_bounds_from_config kPa_to_Pa (ex_block [''state_bounds'' \<mapsto> PyNone]) ''pressure''
       (PyUnit ''Pa'')
     = Inr ((PyNone, PyNone), PyNone)"
proof
  show "get_bounds_from_config kPa_to_Pa (ex_block ex_bounds) ''temperature'' (PyUnit ''K'')
          = Inr ((PyNone, PyNone), PyNone)"
    by (rule get_bounds_from_config_missing
          [where state_bounds =
             "PyDict [(''pressure'', PyTuple [PyNum 1, PyNum 5, PyNum 10, PyUnit ''kPa''])]"])
       (auto simp: ex_block_def ex_params_def ex_bounds_def)
  show "get_bounds_from_config kPa_to_Pa (ex_block [''state_bounds'' \<mapsto> PyNone])
          ''pressure'' (PyUnit ''Pa'') = Inr ((PyNone, PyNone), PyNone)"
    by (rule get_bounds_from_config_missing [where state_bounds = PyNone])
       (auto simp: ex_block_def ex_params_def)
qed

section \<open>Properties of the parameter setter\<close>

text \<open>The setter is the composition of the target lookup, the read of the raw data, the
  resolution of the stored value and the assignment, in this order.\<close>

lemma set_param_value_tail:
  "(if isinstance_tuple p_data then
      logged []
        (and_then
           (if units = PyNone
            then and_then (getitem_int p_data 1) (\<lambda>u. Inr (u = PyNone))
            else Inr False)
           (\<lambda>both_unset.
              if both_unset then
                and_then (getitem_int p_data 0) (\<lambda>v.
                setattr_value b target param_obj v)
              else
                and_then (getitem_int p_data 0) (\<lambda>v.
                and_then (getitem_int p_data 1) (\<lambda>u.
                and_then (convert_value v u units) (\<lambda>v'.
                setattr_value b target param_obj v')))))
    else logged [msg] (setattr_value b target param_obj p_data))
   = (case resolved convert_value units msg p_data of
        Inl e \<Rightarrow> Inl (e, [])
      | Inr (v, msgs) \<Rightarrow> logged msgs (setattr_value b target param_obj v))"
proof (cases p_data)
  case (PyTuple xs)
  then show ?thesis
    by (cases xs; cases "tl xs")
       (auto simp: resolved_def and_then_def logged_def split: sum.splits)
qed (simp_all add: resolved_def and_then_def)


lemma set_param_value_alt:
  "set_param_value convert_value b param units config' index =
     (case and_then (getattr_block b (target_name param index)) (\<lambda>param_obj.
           and_then (raw_data (used_config b config') param index) (\<lambda>p_data.
           and_then (resolved convert_value units (no_units_msg (name b) param) p_data)
             (\<lambda>(v, msgs). Inr (param_obj, v, msgs)))) of
        Inl e \<Rightarrow> Inl (e, [])
      | Inr (param_obj, v, msgs) \<Rightarrow>
          logged msgs (setattr_value b (target_name param index) param_obj v))"
  unfolding set_param_value_def Let_def
  by (cases index)
     (auto simp: set_param_value_tail and_then_def target_name_def raw_data_def
        used_config_def split: sum.splits)


lemma set_param_value_success:
  assumes "set_param_value convert_value b param units config' index = Inr (b', msgs)"
  obtains param_obj p_data v where
    "getattr_block b (target_name param index) = Inr param_obj" and
    "raw_data (used_config b config') param index = Inr p_data" and
    "resolved convert_value units (no_units_msg (name b) param) p_data = Inr (v, msgs)" and
    "setattr_value b (target_name param index) param_obj v = Inr b'"
  using assms
  by (auto simp: set_param_value_alt and_then_def logged_def split: sum.splits)


lemma set_param_value_Parameter:
  assumes "getattr_block b (target_name param index) = Inr (Parameter param_obj)"
    and "raw_data (used_config b config') param index = Inr p_data"
  shows "set_param_value convert_value b param units config' index =
     (case resolved convert_value units (no_units_msg (name b) param) p_data of
        Inl e \<Rightarrow> Inl (e, [])
      | Inr (v, msgs) \<Rightarrow> Inr (set_value b (target_name param index) param_obj v, msgs))"
  using assms
  by (auto simp: set_param_value_alt and_then_def logged_def setattr_value_def
      split: sum.splits)


text \<open>What \<^verbatim>\<open>getattr\<close> finds on a block; a name built with an index is never one of the
  block's own attributes.\<close>

lemma getattr_block_Parameter:
  "getattr_block b n = Inr (Parameter obj) \<longleftrightarrow> n \<notin> set own_attributes \<and> attrs b n = Some obj"
  by (auto simp: getattr_block_def split: option.splits)


lemma getattr_block_Own:
  "getattr_block b n = Inr (Own m) \<longleftrightarrow> n \<in> set own_attributes \<and> m = n"
  by (auto simp: getattr_block_def split: option.splits)


lemma indexed_not_own: "N @ ''_'' @ I \<notin> set own_attributes"
proof -
  have "CHR ''_'' \<in> set (N @ ''_'' @ I)"
    by simp
  moreover have "CHR ''_'' \<notin> set n" if "n \<in> set own_attributes" for n
    using that by (auto simp: own_attributes_def)
  ultimately show ?thesis
    by blast
qed

text \<open>
  Claim C6: when the raw parameter data is a pair \<open>(v, u)\<close>, the setter stores \<open>v\<close>
  unchanged if both the target unit and \<open>u\<close> are \<^verbatim>\<open>None\<close>; in every other case, also
  when only one of the two is \<^verbatim>\<open>None\<close>, it stores what the conversion of \<open>v\<close> from \<open>u\<close>
  to the target unit returns (and fails as the conversion does, storing nothing).  After
  the call the parameter object under the target name holds the stored value.
\<close>

theorem set_param_value_pair:
  assumes "getattr_block b (target_name param index) = Inr (Parameter param_obj)"
    and "raw_data (used_config b config') param index = Inr (PyTuple [v, u])"
  shows "(units = PyNone \<and> u = PyNone \<longrightarrow>
            set_param_value convert_value b param units config' index
              = Inr (set_value b (target_name param index) param_obj v, []) \<and>
            (\<exists>b'. set_param_value convert_value b param units config' index = Inr (b', []) \<and>
                  attrs b' (target_name param index) = Some (param_obj\<lparr>param_value := v\<rparr>) \<and>
                  map_option param_value (attrs b' (target_name param index)) = Some v)) \<and>
         (\<not> (units = PyNone \<and> u = PyNone) \<longrightarrow>
            set_param_value convert_value b param units config' index
              = (case convert_value v u units of
                   Inl e \<Rightarrow> Inl (e, [])
                 | Inr v' \<Rightarrow> Inr (set_value b (target_name param index) param_obj v', [])) \<and>
            (\<forall>v'. convert_value v u units = Inr v' \<longrightarrow>
               (\<exists>b'. set_param_value convert_value b param units config' index = Inr (b', []) \<and>
                     attrs b' (target_name param index) = Some (param_obj\<lparr>param_value := v'\<rparr>) \<and>
                     map_option param_value (attrs b' (target_name param index)) = Some v')))"
  using assms
  by (auto simp: set_param_value_Parameter and_then_def resolved_def set_value_def
      split: sum.splits)

theorem set_param_value_pair_witness:
  "(\<exists>b'. set_param_value kPa_to_Pa
            (ex_param_block (PyDict [(''kappa'', PyTuple [PyNum 2, PyNone])]))
            ''kappa'' PyNone None None = Inr (b', []) \<and>
         map_option param_value (attrs b' ''kappa'') = Some (PyNum 2)) \<and>
   (\<exists>b'. set_param_value kPa_to_Pa
            (ex_param_block (PyDict [(''kappa'', PyTuple [PyNum 2, PyUnit ''kPa''])]))
            ''kappa'' (PyUnit ''Pa'') None None = Inr (b', []) \<and>
         map_option param_value (attrs b' ''kappa'') = Some (PyNum 2000))"
proof
  let ?b = "ex_param_block (PyDict [(''kappa'', PyTuple [PyNum 2, PyNone])])"
  have "getattr_block ?b (target_name ''kappa'' None) = Inr (Parameter \<lparr>param_value = PyNone\<rparr>)"
    and "raw_data (used_config ?b None) ''kappa'' None = Inr (PyTuple [PyNum 2, PyNone])"
    by (simp_all add: ex_param_block_def getattr_block_def own_attributes_def target_name_def
        raw_data_def used_config_def parameter_data_def and_then_def)
  from set_param_value_pair [OF this, of PyNone kPa_to_Pa]
  show "\<exists>b'. set_param_value kPa_to_Pa ?b ''kappa'' PyNone None None = Inr (b', []) \<and>
             map_option param_value (attrs b' ''kappa'') = Some (PyNum 2)"
    by (auto simp: target_name_def set_value_def)
next
  let ?b = "ex_param_block (PyDict [(''kappa'', PyTuple [PyNum 2, PyUnit ''kPa''])])"
  have "getattr_block ?b (target_name ''kappa'' None) = Inr (Parameter \<lparr>param_value = PyNone\<rparr>)"
    and "raw_data (used_config ?b None) ''kappa'' None
           = Inr (PyTuple [PyNum 2, PyUnit ''kPa''])"
    by (simp_all add: ex_param_block_def getattr_block_def own_attributes_def target_name_def
        raw_data_def used_config_def parameter_data_def and_then_def)
  from set_param_value_pair [OF this, of "PyUnit ''Pa''" kPa_to_Pa]
  show "\<exists>b'. set_param_value kPa_to_Pa ?b ''kappa'' (PyUnit ''Pa'') None None = Inr (b', []) \<and>
             map_option param_value (attrs b' ''kappa'') = Some (PyNum 2000)"
    by (auto simp: target_name_def set_value_def kPa_to_Pa_def factor_conversion_def)
qed

text \<open>
  Claim C7: when the raw parameter data is a bare value, that is, not a tuple, the setter
  stores it exactly as it is, whatever the target unit and whatever the conversion
  facility would do, and hands the logger one note that no units were provided and
  default units are assumed.
\<close>

theorem set_param_value_bare:
  assumes "getattr_block b (target_name param index) = Inr (Parameter param_obj)"
    and "raw_data (used_config b config') param index = Inr p_data"
    and "\<not> isinstance_tuple p_data"
  shows "set_param_value convert_value b param units config' index
           = Inr (set_value b (target_name param index) param_obj p_data,
                  [no_units_msg (name b) param]) \<and>
         map_option param_value
           (attrs (set_value b (target_name param index) param_obj p_data)
              (target_name param index)) = Some p_data"
  using assms
  by (cases p_data)
     (simp_all add: set_param_value_Parameter and_then_def resolved_def set_value_def)

theorem set_param_value_bare_witness:
  "set_param_value never_converts (ex_param_block (PyDict [(''kappa'', PyNum 2)]))
       ''kappa'' (PyUnit ''Pa'') None None
     = Inr (set_value (ex_param_block (PyDict [(''kappa'', PyNum 2)]))
              ''kappa'' \<lparr>param_value = PyNone\<rparr> (PyNum 2),
            [''props no units provided for parameter kappa - assuming default units''])"
  using set_param_value_bare
      [of "ex_param_block (PyDict [(''kappa'', PyNum 2)])" "''kappa''" None
          "\<lparr>param_value = PyNone\<rparr>" None "PyNum 2" never_converts "PyUnit ''Pa''"]
  by (simp add: ex_param_block_def getattr_block_def own_attributes_def target_name_def
      raw_data_def used_config_def parameter_data_def and_then_def no_units_msg_def)

text \<open>
  Claim C8: a call with parameter name \<open>N\<close> and index \<open>I\<close> looks for the attribute named
  \<open>N @ ''_'' @ I\<close> on the block and fails when the block has none; when the call succeeds,
  the raw data is \<^verbatim>\<open>parameter_data[N][I]\<close>, the value resolved from it is stored in that
  attribute, and every other attribute of the block is as before.
\<close>

theorem set_param_value_indexed:
  "(attrs b (N @ ''_'' @ I) = None \<longrightarrow>
      set_param_value convert_value b N units config' (Some I)
        = Inl (AttributeError (Lookup (N @ ''_'' @ I)), [])) \<and>
   (set_param_value convert_value b N units config' (Some I) = Inr (b', msgs) \<longrightarrow>
      (\<exists>param_obj pd d p_data v.
          attrs b (N @ ''_'' @ I) = Some param_obj \<and>
          used_config b config' ''parameter_data'' = Some pd \<and>
          getitem_str pd N = Inr d \<and> getitem_str d I = Inr p_data \<and>
          resolved convert_value units (no_units_msg (name b) N) p_data = Inr (v, msgs) \<and>
          b' = set_value b (N @ ''_'' @ I) param_obj v \<and>
          attrs b' (N @ ''_'' @ I) = Some (param_obj\<lparr>param_value := v\<rparr>) \<and>
          (\<forall>k. k \<noteq> N @ ''_'' @ I \<longrightarrow> attrs b' k = attrs b k)))"
proof (intro conjI impI)
  assume "attrs b (N @ ''_'' @ I) = None"
  with indexed_not_own [of N I]
  show "set_param_value convert_value b N units config' (Some I)
               = Inl (AttributeError (Lookup (N @ ''_'' @ I)), [])"
    by (simp add: set_param_value_alt and_then_def target_name_def getattr_block_def)
next
  assume "set_param_value convert_value b N units config' (Some I) = Inr (b', msgs)"
  then obtain a p_data v where
    obj: "getattr_block b (target_name N (Some I)) = Inr a" and
    dat: "raw_data (used_config b config') N (Some I) = Inr p_data" and
    res: "resolved convert_value units (no_units_msg (name b) N) p_data = Inr (v, msgs)" and
    asg: "setattr_value b (target_name N (Some I)) a v = Inr b'"
    by (rule set_param_value_success)
  from obj indexed_not_own [of N I] obtain param_obj where
    a: "a = Parameter param_obj" and "attrs b (N @ ''_'' @ I) = Some param_obj"
    by (auto simp: getattr_block_def target_name_def split: option.splits)
  moreover from dat obtain pd d where
    "used_config b config' ''parameter_data'' = Some pd"
    "getitem_str pd N = Inr d" "getitem_str d I = Inr p_data"
    by (auto simp: raw_data_def parameter_data_def and_then_def
        split: option.splits sum.splits)
  moreover from asg a have "b' = set_value b (N @ ''_'' @ I) param_obj v"
    by (simp add: target_name_def setattr_value_def)
  ultimately show "\<exists>param_obj pd d p_data v.
          attrs b (N @ ''_'' @ I) = Some param_obj \<and>
          used_config b config' ''parameter_data'' = Some pd \<and>
          getitem_str pd N = Inr d \<and> getitem_str d I = Inr p_data \<and>
          resolved convert_value units (no_units_msg (name b) N) p_data = Inr (v, msgs) \<and>
          b' = set_value b (N @ ''_'' @ I) param_obj v \<and>
          attrs b' (N @ ''_'' @ I) = Some (param_obj\<lparr>param_value := v\<rparr>) \<and>
          (\<forall>k. k \<noteq> N @ ''_'' @ I \<longrightarrow> attrs b' k = attrs b k)"
    using res by (auto simp: set_value_def)
qed

theorem set_param_value_indexed_witness:
  "set_param_value kPa_to_Pa ex_kappa ''kappa'' (PyUnit ''Pa'') None (Some ''1'')
     = Inr (set_value ex_kappa ''kappa_1'' \<lparr>param_value = PyNone\<rparr> (PyNum 2),
            [no_units_msg ''props'' ''kappa'']) \<and>
   (\<exists>param_obj pd d.
       attrs ex_kappa ''kappa_1'' = Some param_obj \<and>
       config ex_kappa ''parameter_data'' = Some pd \<and>
       getitem_str pd ''kappa'' = Inr d \<and> getitem_str d ''1'' = Inr (PyNum 2))"
proof -
  have run: "set_param_value kPa_to_Pa ex_kappa ''kappa'' (PyUnit ''Pa'') None (Some ''1'')
     = Inr (set_value ex_kappa ''kappa_1'' \<lparr>param_value = PyNone\<rparr> (PyNum 2),
            [no_units_msg ''props'' ''kappa''])"
    by (simp add: set_param_value_def ex_kappa_def ex_param_block_def getattr_block_def
        own_attributes_def parameter_data_def and_then_def logged_def setattr_value_def)
  from set_param_value_indexed
         [of ex_kappa "''kappa''" "''1''" kPa_to_Pa "PyUnit ''Pa''" None
             "set_value ex_kappa ''kappa_1'' \<lparr>param_value = PyNone\<rparr> (PyNum 2)"
             "[no_units_msg ''props'' ''kappa'']"] run
  obtain param_obj pd d p_data where
    *: "attrs ex_kappa ''kappa_1'' = Some param_obj"
    "used_config ex_kappa None ''parameter_data'' = Some pd"
    "getitem_str pd ''kappa'' = Inr d" "getitem_str d ''1'' = Inr p_data"
    by auto
  then have "p_data = PyNum 2"
    by (auto simp: used_config_def ex_kappa_def ex_param_block_def)
  with * run show ?thesis
    by (auto simp: used_config_def)
qed

text \<open>
  Claim C9: a second call of the setter with the same arguments, on the block the first
  call left, stores the same value again: the block and the messages are those of the
  first call, and no conversion is applied on top of the first.
\<close>

theorem set_param_value_idempotent:
  assumes "set_param_value convert_value b param units config' index = Inr (b', msgs)"
  shows "set_param_value convert_value b' param units config' index = Inr (b', msgs)"
proof -
  let ?t = "target_name param index"
  from assms obtain a p_data v where
    obj: "getattr_block b ?t = Inr a" and
    dat: "raw_data (used_config b config') param index = Inr p_data" and
    res: "resolved convert_value units (no_units_msg (name b) param) p_data = Inr (v, msgs)" and
    asg: "setattr_value b ?t a v = Inr b'"
    by (rule set_param_value_success)
  have same: "used_config b' config' = used_config b config'" "name b' = name b"
    using asg
    by (auto simp: setattr_value_def set_value_def used_config_def
        split: attribute.splits option.splits if_splits)
  have "\<exists>a'. getattr_block b' ?t = Inr a' \<and> setattr_value b' ?t a' v = Inr b'"
  proof (cases a)
    case (Parameter param_obj)
    with obj have "?t \<notin> set own_attributes"
      by (simp add: getattr_block_Parameter)
    moreover from asg Parameter have b': "b' = set_value b ?t param_obj v"
      by (simp add: setattr_value_def)
    ultimately have "getattr_block b' ?t = Inr (Parameter (param_obj\<lparr>param_value := v\<rparr>))"
      by (simp add: getattr_block_def set_value_def)
    moreover have "setattr_value b' ?t (Parameter (param_obj\<lparr>param_value := v\<rparr>)) v = Inr b'"
      by (simp add: b' setattr_value_def set_value_def)
    ultimately show ?thesis by blast
  next
    case (Own n)
    with obj have own: "?t \<in> set own_attributes" and n: "n = ?t"
      by (simp_all add: getattr_block_Own)
    from own have "getattr_block b' ?t = Inr (Own ?t)"
      by (simp add: getattr_block_def)
    moreover from asg Own n have "setattr_value b' ?t (Own ?t) v = Inr b'"
      by (auto simp: setattr_value_def split: if_splits option.splits)
    ultimately show ?thesis by blast
  qed
  then show ?thesis
    using dat res same by (auto simp: set_param_value_alt and_then_def logged_def)
qed

theorem set_param_value_idempotent_witness:
  "set_param_value kPa_to_Pa
     (set_value ex_kappa ''kappa_2'' \<lparr>param_value = PyNone\<rparr> (PyNum 3000))
     ''kappa'' (PyUnit ''Pa'') None (Some ''2'')
   = Inr (set_value ex_kappa ''kappa_2'' \<lparr>param_value = PyNone\<rparr> (PyNum 3000), [])"
  by (rule set_param_value_idempotent [where b = ex_kappa])
     (simp add: set_param_value_def ex_kappa_def ex_param_block_def getattr_block_def
        own_attributes_def parameter_data_def and_then_def logged_def setattr_value_def
        kPa_to_Pa_def factor_conversion_def)

end
